theory Spec2Isabelle
  imports Main "HOL-Library.Sublist"
begin

section \<open>Python strings\<close>

text \<open>
  A Python \<open>str\<close> is a sequence of code points and \<open>len\<close> counts them. A text is
  modelled as a \<open>string\<close> in which every \<open>char\<close> stands for the code point of the
  same number, so the texts covered are those over U+0000 .. U+00FF and \<open>length\<close> is
  \<open>len\<close>. On this range \<open>str.isspace\<close>, \<open>str.lower\<close> and the classes \<open>\s\<close> and
  \<open>\w\<close> of the module \<open>re\<close> are the following tables.
\<close>

definition isspace :: "char \<Rightarrow> bool" where
  "isspace c =
     (let n = (of_char c :: nat)
      in (9 \<le> n \<and> n \<le> 13) \<or> (28 \<le> n \<and> n \<le> 32) \<or> n = 133 \<or> n = 160)"

definition lstrip :: "string \<Rightarrow> string" where
  "lstrip s = dropWhile isspace s"

definition rstrip :: "string \<Rightarrow> string" where
  "rstrip s = rev (dropWhile isspace (rev s))"

definition strip :: "string \<Rightarrow> string" where
  "strip s = rstrip (lstrip s)"

definition lower_char :: "char \<Rightarrow> char" where
  "lower_char c =
     (let n = (of_char c :: nat)
      in if (65 \<le> n \<and> n \<le> 90) \<or> (192 \<le> n \<and> n \<le> 222 \<and> n \<noteq> 215)
         then char_of (n + 32) else c)"

definition lower :: "string \<Rightarrow> string" where
  "lower s = map lower_char s"

text \<open>
  \<open>w in s\<close> on two strings holds when \<open>w\<close> occurs in \<open>s\<close> as a contiguous run of
  characters: this is \<^const>\<open>sublist\<close>, \<open>sublist w s \<longleftrightarrow> (\<exists>p q. s = p @ w @ q)\<close>.
\<close>

definition isword :: "char \<Rightarrow> bool" where
  "isword c =
     (let n = (of_char c :: nat)
      in (48 \<le> n \<and> n \<le> 57) \<or> (65 \<le> n \<and> n \<le> 90) \<or> n = 95 \<or> (97 \<le> n \<and> n \<le> 122)
         \<or> n = 170 \<or> n = 178 \<or> n = 179 \<or> n = 181 \<or> n = 185 \<or> n = 186
         \<or> (188 \<le> n \<and> n \<le> 190) \<or> (192 \<le> n \<and> n \<le> 214) \<or> (216 \<le> n \<and> n \<le> 246)
         \<or> 248 \<le> n)"

section \<open>Exceptions and values\<close>

text \<open>
  The exceptions raised in the two modules. \<open>HTTPException\<close> is the one of fastapi,
  \<open>ValidationError\<close> and \<open>PydanticUserError\<close> are those of pydantic, \<open>ValueError\<close>
  and \<open>AttributeError\<close> are built in. All are subclasses of \<open>Exception\<close>, and only a
  \<open>ValidationError\<close> is an instance of \<open>ValidationError\<close>. A \<open>PydanticUserError\<close>
  is kept by its error code. \<open>exc_str\<close> is \<open>str(e)\<close>, the message, for the exceptions
  whose text the code puts into a result. The text of an \<open>HTTPException\<close> is only ever
  logged, and \<open>exc_str\<close> gives its detail.
\<close>

datatype py_exception =
    HTTPException (status_code: nat) (detail: string)
  | ValueError string
  | ValidationError string
  | AttributeError string
  | PydanticUserError string

fun exc_str :: "py_exception \<Rightarrow> string" where
  "exc_str (ValueError m) = m"
| "exc_str (ValidationError m) = m"
| "exc_str (AttributeError m) = m"
| "exc_str (PydanticUserError m) = m"
| "exc_str (HTTPException s d) = d"

fun isinstance_ValidationError :: "py_exception \<Rightarrow> bool" where
  "isinstance_ValidationError (ValidationError m) = True"
| "isinstance_ValidationError e = False"

text \<open>
  A dynamically typed argument or element: \<open>None\<close>, a \<open>str\<close>, an \<open>int\<close> (standing
  for the values that are neither) and a \<open>dict\<close> from strings to strings, kept as the
  list of its items in insertion order.
\<close>

datatype py_value =
    PyNone
  | PyStr string
  | PyInt int
  | PyDict "(string \<times> string) list"

text \<open>
  A link record of shape \<open>{title, url}\<close> is a \<open>dict\<close> whose keys are \<open>title\<close> and
  \<open>url\<close>; a bare URL is a \<open>str\<close>.
\<close>

definition is_title_url_record :: "py_value \<Rightarrow> bool" where
  "is_title_url_record v =
     (case v of PyDict kvs \<Rightarrow> map fst kvs = [''title'', ''url''] | _ \<Rightarrow> False)"

section \<open>services.py\<close>

record QuestionModel =
  question :: string
  user_id :: "string option"

record ResponseModel =
  category :: string
  answer :: string
  documentation_links :: "string list"
  troubleshooting_steps :: "string list"

record ModelService =
  model_loaded :: bool
  model_name :: string

definition ModelService_init :: ModelService where
  "ModelService_init = \<lparr>model_loaded = False, model_name = ''qa_categorizer_v1''\<rparr>"

definition load_model :: "ModelService \<Rightarrow> ModelService" where
  "load_model self = self\<lparr>model_loaded := True\<rparr>"

definition categories :: "string list" where
  "categories = [''networking'', ''security'', ''storage'', ''virtualization'']"

definition categorize_question :: "ModelService \<Rightarrow> string \<Rightarrow> py_exception + string" where
  "categorize_question self q =
     (if \<not> model_loaded self then Inl (HTTPException 503 ''Model not available'')
      else if strip q = [] then Inl (HTTPException 400 ''Question cannot be empty'')
      else Inr (categories ! (length q mod length categories)))"

text \<open>
  The three tables of \<open>QuestionProcessor\<close> are dictionaries read with
  \<open>dict.get(category, default)\<close>.
\<close>

definition dict_get :: "('k \<rightharpoonup> 'v) \<Rightarrow> 'k \<Rightarrow> 'v \<Rightarrow> 'v" where
  "dict_get d k dflt = (case d k of Some v \<Rightarrow> v | None \<Rightarrow> dflt)"

definition answers :: "string \<rightharpoonup> string" where
  "answers = map_of
     [(''networking'', ''For networking issues, check router settings and firewall rules.''),
      (''security'', ''Security problems often require reviewing access controls and encryption protocols.''),
      (''storage'', ''Storage issues may involve disk space management or RAID configuration.''),
      (''virtualization'', ''Virtualization problems typically relate to resource allocation or hypervisor settings.'')]"

definition generate_answer :: "string \<Rightarrow> string" where
  "generate_answer c = dict_get answers c ''No specific guidance available for this category''"

definition links :: "string \<rightharpoonup> string list" where
  "links = map_of
     [(''networking'',
         [''https://docs.example.com/networking-guide'',
          ''https://support.example.com/network-troubleshooting'']),
      (''security'',
         [''https://docs.example.com/security-best-practices'',
          ''https://support.example.com/secure-configuration'']),
      (''storage'',
         [''https://docs.example.com/storage-optimization'',
          ''https://support.example.com/storage-diagnosis'']),
      (''virtualization'',
         [''https://docs.example.com/virtualization-tips'',
          ''https://support.example.com/vm-configuration''])]"

definition generate_documentation_links :: "string \<Rightarrow> string list" where
  "generate_documentation_links c = dict_get links c []"

definition steps :: "string \<rightharpoonup> string list" where
  "steps = map_of
     [(''networking'',
         [''Check physical connections and router LEDs'',
          ''Restart network devices and test connectivity'',
          ''Verify firewall rules and port configurations'']),
      (''security'',
         [''Review access control lists and permissions'',
          ''Check for unauthorized device connections'',
          ''Verify encryption protocols and certificate validity'']),
      (''storage'',
         [''Monitor disk space and storage quotas'',
          ''Check RAID array status and rebuild if needed'',
          ''Verify storage path configurations and permissions'']),
      (''virtualization'',
         [''Check resource allocation for virtual machines'',
          ''Verify hypervisor version and patches'',
          ''Monitor VM performance counters for bottlenecks''])]"

definition generate_troubleshooting_steps :: "string \<Rightarrow> string list" where
  "generate_troubleshooting_steps c = dict_get steps c []"

record QuestionProcessor =
  model_service :: ModelService

text \<open>
  \<open>process_question\<close> is a \<open>try\<close> block with two handlers. \<open>process_question_try\<close>
  is the block: the outcome is the response or the first exception raised in it.
  \<open>process_question\<close> applies the handlers in the order of the source: a pydantic
  \<open>ValidationError\<close> becomes a 400 carrying its text, and every other \<open>Exception\<close>,
  which includes the \<open>HTTPException\<close>s raised inside the block, becomes a 500 with
  the fixed detail. The calls to the logger are left out.
\<close>

definition process_question_try :: "QuestionProcessor \<Rightarrow> QuestionModel \<Rightarrow> py_exception + ResponseModel" where
  "process_question_try self question_data =
     (if strip (question question_data) = []
      then Inl (HTTPException 400 ''Question cannot be empty'')
      else case categorize_question (model_service self) (question question_data) of
             Inl e \<Rightarrow> Inl e
           | Inr c \<Rightarrow>
               Inr \<lparr>category = c,
                    answer = generate_answer c,
                    documentation_links = generate_documentation_links c,
                    troubleshooting_steps = generate_troubleshooting_steps c\<rparr>)"

definition process_question :: "QuestionProcessor \<Rightarrow> QuestionModel \<Rightarrow> py_exception + ResponseModel" where
  "process_question self question_data =
     (case process_question_try self question_data of
        Inr r \<Rightarrow> Inr r
      | Inl e \<Rightarrow>
          if isinstance_ValidationError e then Inl (HTTPException 400 (exc_str e))
          else Inl (HTTPException 500 ''Internal server error''))"

section \<open>utils.py\<close>

text \<open>
  The logger is modelled where a function of this module writes to it on the way to its
  result: a call returns the entries it logged, in order, next to its outcome.
\<close>

datatype log_level = WARNING | ERROR

type_synonym log_entry = "log_level \<times> string"

text \<open>
  The two word sets of \<open>QuestionValidator\<close> are Python sets, which \<open>__init__\<close> stores
  on the instance. They are only read by \<open>any(word in value.lower() for word in ...)\<close>,
  whose result does not depend on the order of iteration, so each is kept as the list of
  its members.
\<close>

record QuestionValidator =
  prohibited_words :: "string list"
  technical_keywords :: "string list"

definition QuestionValidator_init :: QuestionValidator where
  "QuestionValidator_init =
     \<lparr>prohibited_words = [''spam'', ''illegal'', ''malware''],
      technical_keywords = [''how'', ''why'', ''what'', ''explain'', ''steps'', ''guide'']\<rparr>"

definition any_word_in :: "string list \<Rightarrow> string \<Rightarrow> bool" where
  "any_word_in ws s = list_ex (\<lambda>word. sublist word s) ws"

text \<open>
  The first parameter of \<open>validate_question\<close>, \<open>self\<close>, is whatever the call binds to it:
  an initialised instance, which has the two attributes, or the class object
  \<open>QuestionValidator\<close> itself, which has neither, since only \<open>__init__\<close> sets them.
  Reading a missing attribute of the class raises \<open>AttributeError\<close>.
\<close>

datatype receiver = Instance QuestionValidator | ClassObject

definition no_attribute :: "string \<Rightarrow> py_exception" where
  "no_attribute name =
     AttributeError (''type object '' @ [CHR 0x27] @ ''QuestionValidator'' @ [CHR 0x27]
                     @ '' has no attribute '' @ [CHR 0x27] @ name @ [CHR 0x27])"

definition getattr_prohibited_words :: "receiver \<Rightarrow> py_exception + string list" where
  "getattr_prohibited_words self =
     (case self of
        Instance obj \<Rightarrow> Inr (prohibited_words obj)
      | ClassObject \<Rightarrow> Inl (no_attribute ''prohibited_words''))"

definition getattr_technical_keywords :: "receiver \<Rightarrow> py_exception + string list" where
  "getattr_technical_keywords self =
     (case self of
        Instance obj \<Rightarrow> Inr (technical_keywords obj)
      | ClassObject \<Rightarrow> Inl (no_attribute ''technical_keywords''))"

text \<open>
  \<open>validate_question_try\<close> is the \<open>try\<close> block of the function as written, and
  \<open>validate_question_body\<close> the function with its handler, which turns every exception
  of the block into a 400 carrying \<open>str(e)\<close>.
\<close>

definition validate_question_try :: "receiver \<Rightarrow> string \<Rightarrow> log_entry list \<times> (py_exception + string)" where
  "validate_question_try self v =
     (if strip v = [] then ([], Inl (ValueError ''Question cannot be empty''))
      else case getattr_prohibited_words self of
             Inl e \<Rightarrow> ([], Inl e)
           | Inr pw \<Rightarrow>
               if any_word_in pw (lower v)
               then ([], Inl (ValueError ''Question contains prohibited content''))
               else case getattr_technical_keywords self of
                      Inl e \<Rightarrow> ([], Inl e)
                    | Inr tk \<Rightarrow>
                        (if \<not> any_word_in tk (lower v)
                         then [(WARNING, ''Question may not be technical enough: '' @ v)]
                         else [],
                         Inr v))"

definition validate_question_body :: "receiver \<Rightarrow> string \<Rightarrow> log_entry list \<times> (py_exception + string)" where
  "validate_question_body self v =
     (case validate_question_try self v of
        (lg, Inr r) \<Rightarrow> (lg, Inr r)
      | (lg, Inl e) \<Rightarrow>
          (lg @ [(ERROR, ''Validation error: '' @ exc_str e)],
           Inl (HTTPException 400 (exc_str e))))"

text \<open>
  The function is decorated with \<open>@validator('question')\<close> of pydantic, inside a class that
  is not a pydantic model. What the decorator makes of it depends on the major version of
  the library:
  \<^item> pydantic 1 wraps the function in \<open>classmethod\<close>. The class keeps it as a class method,
    so a call \<open>obj.validate_question(value)\<close> runs the body with \<open>self\<close> bound to the
    class object, whatever instance \<open>obj\<close> is.
  \<^item> pydantic 2 refuses a function whose first parameter is named \<open>self\<close>: the decorator
    raises \<open>PydanticUserError\<close> with the code \<open>validator-instance-method\<close> while the class
    body is executed, so the class is never created and that error is the outcome of every
    attempt to use the method.
  The module \<open>models.py\<close> of this repository imports \<open>model_validator\<close>, which only
  pydantic 2 has.
\<close>

datatype pydantic = Pydantic1 | Pydantic2

definition validate_question :: "pydantic \<Rightarrow> QuestionValidator \<Rightarrow> string \<Rightarrow> log_entry list \<times> (py_exception + string)" where
  "validate_question version obj v =
     (case version of
        Pydantic1 \<Rightarrow> validate_question_body ClassObject v
      | Pydantic2 \<Rightarrow> ([], Inl (PydanticUserError ''validator-instance-method'')))"

text \<open>
  \<open>DocumentationHelper\<close> holds its own dictionary, from a category to one URL.
  A returned link is a \<open>dict\<close> with the keys \<open>title\<close> and \<open>url\<close>, in that order.
\<close>

record DocumentationHelper =
  documentation_links_dict :: "string \<rightharpoonup> string"

definition DocumentationHelper_init :: DocumentationHelper where
  "DocumentationHelper_init =
     \<lparr>documentation_links_dict = map_of
        [(''python'', ''https://docs.python.org/3/''),
         (''machine-learning'', ''https://machinelearning.com/''),
         (''api'', ''https://api-reference.example.com/'')]\<rparr>"

definition get_documentation_links_try :: "DocumentationHelper \<Rightarrow> string \<Rightarrow> py_exception + (string \<times> string) list list" where
  "get_documentation_links_try self c =
     (case documentation_links_dict self c of
        None \<Rightarrow>
          Inl (ValueError (''Category '' @ [CHR 0x27] @ c @ [CHR 0x27]
                           @ '' not found in documentation links''))
      | Some u \<Rightarrow> Inr [[(''title'', ''Documentation for '' @ c), (''url'', u)]])"

definition get_documentation_links :: "DocumentationHelper \<Rightarrow> string \<Rightarrow> (string \<times> string) list list" where
  "get_documentation_links self c =
     (case get_documentation_links_try self c of Inr r \<Rightarrow> r | Inl e \<Rightarrow> [])"

text \<open>
  \<open>re.sub(r'<[^>]+>', '', text)\<close> scans from the left. At a \<open><\<close> the pattern matches
  when the longest run of characters other than \<open>>\<close> that follows is not empty and is
  followed by a \<open>>\<close>; the match is deleted and the scan goes on behind it. Anywhere
  else the character is kept and the scan moves one character on.
\<close>

function remove_tags :: "string \<Rightarrow> string" where
  "remove_tags [] = []"
| "remove_tags (c # cs) =
     (if c = CHR ''<'' \<and> takeWhile (\<lambda>x. x \<noteq> CHR ''>'') cs \<noteq> []
         \<and> dropWhile (\<lambda>x. x \<noteq> CHR ''>'') cs \<noteq> []
      then remove_tags (tl (dropWhile (\<lambda>x. x \<noteq> CHR ''>'') cs))
      else c # remove_tags cs)"
  by pat_completeness auto
termination
proof (relation "measure length")
  show "wf (measure length)" by simp
next
  fix c :: char and cs :: string
  have "length (tl (dropWhile (\<lambda>x. x \<noteq> CHR ''>'') cs)) \<le> length cs"
    using length_dropWhile_le [of "\<lambda>x. x \<noteq> CHR ''>''" cs] by simp
  then show "(tl (dropWhile (\<lambda>x. x \<noteq> CHR ''>'') cs), c # cs) \<in> measure length"
    by simp
next
  fix c :: char and cs :: string
  show "(cs, c # cs) \<in> measure length" by simp
qed

text \<open>
  The second substitution deletes every character outside the class
  \<open>[\w\s\-\.\,\!\?\;\:\(\)\{\}\[\]]\<close>.
\<close>

definition allowed_char :: "char \<Rightarrow> bool" where
  "allowed_char c = (isword c \<or> isspace c \<or> c \<in> set ''-.,!?;:(){}[]'')"

definition remove_special :: "string \<Rightarrow> string" where
  "remove_special s = filter allowed_char s"

definition sanitize_input_try :: "py_value \<Rightarrow> py_exception + string" where
  "sanitize_input_try text =
     (case text of
        PyNone \<Rightarrow> Inr []
      | PyStr s \<Rightarrow> Inr (strip (remove_special (remove_tags s)))
      | _ \<Rightarrow> Inl (ValueError ''Input must be a string''))"

definition sanitize_input :: "py_value \<Rightarrow> string" where
  "sanitize_input text = (case sanitize_input_try text of Inr s \<Rightarrow> s | Inl e \<Rightarrow> [])"

section \<open>The classifier\<close>

lemma categories_index_in_range: "length t mod length categories < length categories"
  by (simp add: categories_def)

text \<open>
  C1. With the model loaded and a text \<open>t\<close> that is not blank, \<open>categorize_question\<close>
  returns the entry at index \<open>length t mod 4\<close> of the ordered list networking, security,
  storage, virtualization, and every loaded service returns the same category for \<open>t\<close>.
\<close>

theorem categorize_question_index:
  assumes "model_loaded self" and "strip t \<noteq> []"
  shows "categorize_question self t
           = Inr ([''networking'', ''security'', ''storage'', ''virtualization''] ! (length t mod 4))
       \<and> (\<forall>self'. model_loaded self' \<longrightarrow> categorize_question self' t = categorize_question self t)"
  using assms by (simp add: categorize_question_def categories_def)

theorem categorize_question_index_witness:
  "model_loaded (load_model ModelService_init) \<and> strip ''hello'' \<noteq> []
   \<and> categorize_question (load_model ModelService_init) ''hello'' = Inr ''security''"
proof -
  have l: "model_loaded (load_model ModelService_init)"
    by (simp add: load_model_def ModelService_init_def)
  have s: "strip ''hello'' \<noteq> []"
    by (simp add: strip_def lstrip_def rstrip_def isspace_def)
  from categorize_question_index [OF l s] show ?thesis using l s by simp
qed

text \<open>
  C4. When the model is not loaded, \<open>categorize_question\<close> fails with the 503
  "Model not available" whatever the text is, blank or not, because readiness is tested
  first; when the model is loaded and the text is blank after trimming, it fails with the
  400 "Question cannot be empty".
\<close>

theorem categorize_question_errors:
  "(\<not> model_loaded self \<longrightarrow>
      categorize_question self t = Inl (HTTPException 503 ''Model not available''))
   \<and> (model_loaded self \<and> strip t = [] \<longrightarrow>
      categorize_question self t = Inl (HTTPException 400 ''Question cannot be empty''))"
  by (simp add: categorize_question_def)

theorem categorize_question_errors_witness:
  "\<not> model_loaded ModelService_init
   \<and> categorize_question ModelService_init ''   '' = Inl (HTTPException 503 ''Model not available'')
   \<and> model_loaded (load_model ModelService_init) \<and> strip ''   '' = []
   \<and> categorize_question (load_model ModelService_init) ''   ''
       = Inl (HTTPException 400 ''Question cannot be empty'')"
proof -
  have n: "\<not> model_loaded ModelService_init" by (simp add: ModelService_init_def)
  have l: "model_loaded (load_model ModelService_init)"
    by (simp add: load_model_def ModelService_init_def)
  have s: "strip ''   '' = []"
    by (simp add: strip_def lstrip_def rstrip_def isspace_def)
  from categorize_question_errors [of ModelService_init "''   ''"]
       categorize_question_errors [of "load_model ModelService_init" "''   ''"]
  show ?thesis using n l s by simp
qed

section \<open>The knowledge base\<close>

lemma generate_answer_unknown:
  "c \<notin> set categories \<Longrightarrow> generate_answer c = ''No specific guidance available for this category''"
  by (simp add: generate_answer_def dict_get_def answers_def categories_def)

lemma generate_documentation_links_unknown:
  "c \<notin> set categories \<Longrightarrow> generate_documentation_links c = []"
  by (simp add: generate_documentation_links_def dict_get_def links_def categories_def)

lemma generate_troubleshooting_steps_unknown:
  "c \<notin> set categories \<Longrightarrow> generate_troubleshooting_steps c = []"
  by (simp add: generate_troubleshooting_steps_def dict_get_def steps_def categories_def)

lemma generate_answer_known:
  "generate_answer ''networking'' = ''For networking issues, check router settings and firewall rules.''"
  "generate_answer ''security'' = ''Security problems often require reviewing access controls and encryption protocols.''"
  "generate_answer ''storage'' = ''Storage issues may involve disk space management or RAID configuration.''"
  "generate_answer ''virtualization'' = ''Virtualization problems typically relate to resource allocation or hypervisor settings.''"
  by (simp_all add: generate_answer_def dict_get_def answers_def)

lemma generate_documentation_links_known:
  "generate_documentation_links ''networking'' =
     [''https://docs.example.com/networking-guide'',
      ''https://support.example.com/network-troubleshooting'']"
  "generate_documentation_links ''security'' =
     [''https://docs.example.com/security-best-practices'',
      ''https://support.example.com/secure-configuration'']"
  "generate_documentation_links ''storage'' =
     [''https://docs.example.com/storage-optimization'',
      ''https://support.example.com/storage-diagnosis'']"
  "generate_documentation_links ''virtualization'' =
     [''https://docs.example.com/virtualization-tips'',
      ''https://support.example.com/vm-configuration'']"
  by (simp_all add: generate_documentation_links_def dict_get_def links_def)

lemma generate_troubleshooting_steps_known:
  "generate_troubleshooting_steps ''networking'' =
     [''Check physical connections and router LEDs'',
      ''Restart network devices and test connectivity'',
      ''Verify firewall rules and port configurations'']"
  "generate_troubleshooting_steps ''security'' =
     [''Review access control lists and permissions'',
      ''Check for unauthorized device connections'',
      ''Verify encryption protocols and certificate validity'']"
  "generate_troubleshooting_steps ''storage'' =
     [''Monitor disk space and storage quotas'',
      ''Check RAID array status and rebuild if needed'',
      ''Verify storage path configurations and permissions'']"
  "generate_troubleshooting_steps ''virtualization'' =
     [''Check resource allocation for virtual machines'',
      ''Verify hypervisor version and patches'',
      ''Monitor VM performance counters for bottlenecks'']"
  by (simp_all add: generate_troubleshooting_steps_def dict_get_def steps_def)

lemma known_category_cases:
  "c \<in> set categories \<Longrightarrow>
     c = ''networking'' \<or> c = ''security'' \<or> c = ''storage'' \<or> c = ''virtualization''"
  by (simp add: categories_def)

text \<open>
  C5. The three lookups are total functions of the category alone. For a category of the
  list \<open>categories\<close> the answer is not empty, there are exactly two documentation links
  and exactly three troubleshooting steps; for any other category the answer is the
  generic sentence and both sequences are empty. The links and the steps of the four
  categories, in the order of the list \<open>categories\<close>, are the fixed sequences below.
\<close>

theorem knowledge_base_lookups:
  "(c \<in> set categories \<longrightarrow>
      generate_answer c \<noteq> []
      \<and> length (generate_documentation_links c) = 2
      \<and> length (generate_troubleshooting_steps c) = 3)
   \<and> (c \<notin> set categories \<longrightarrow>
      generate_answer c = ''No specific guidance available for this category''
      \<and> generate_documentation_links c = []
      \<and> generate_troubleshooting_steps c = [])
   \<and> map generate_documentation_links categories =
       [[''https://docs.example.com/networking-guide'',
         ''https://support.example.com/network-troubleshooting''],
        [''https://docs.example.com/security-best-practices'',
         ''https://support.example.com/secure-configuration''],
        [''https://docs.example.com/storage-optimization'',
         ''https://support.example.com/storage-diagnosis''],
        [''https://docs.example.com/virtualization-tips'',
         ''https://support.example.com/vm-configuration'']]
   \<and> map generate_troubleshooting_steps categories =
       [[''Check physical connections and router LEDs'',
         ''Restart network devices and test connectivity'',
         ''Verify firewall rules and port configurations''],
        [''Review access control lists and permissions'',
         ''Check for unauthorized device connections'',
         ''Verify encryption protocols and certificate validity''],
        [''Monitor disk space and storage quotas'',
         ''Check RAID array status and rebuild if needed'',
         ''Verify storage path configurations and permissions''],
        [''Check resource allocation for virtual machines'',
         ''Verify hypervisor version and patches'',
         ''Monitor VM performance counters for bottlenecks'']]"
proof (intro conjI impI)
  assume k: "c \<in> set categories"
  from known_category_cases [OF k] show "generate_answer c \<noteq> []"
    by (auto simp: generate_answer_known)
  from known_category_cases [OF k] show "length (generate_documentation_links c) = 2"
    by (auto simp: generate_documentation_links_known)
  from known_category_cases [OF k] show "length (generate_troubleshooting_steps c) = 3"
    by (auto simp: generate_troubleshooting_steps_known)
next
  assume "c \<notin> set categories"
  then show "generate_answer c = ''No specific guidance available for this category''"
    by (rule generate_answer_unknown)
next
  assume "c \<notin> set categories"
  then show "generate_documentation_links c = []"
    by (rule generate_documentation_links_unknown)
next
  assume "c \<notin> set categories"
  then show "generate_troubleshooting_steps c = []"
    by (rule generate_troubleshooting_steps_unknown)
next
  show "map generate_documentation_links categories =
       [[''https://docs.example.com/networking-guide'',
         ''https://support.example.com/network-troubleshooting''],
        [''https://docs.example.com/security-best-practices'',
         ''https://support.example.com/secure-configuration''],
        [''https://docs.example.com/storage-optimization'',
         ''https://support.example.com/storage-diagnosis''],
        [''https://docs.example.com/virtualization-tips'',
         ''https://support.example.com/vm-configuration'']]"
    by (simp add: categories_def generate_documentation_links_known)
next
  show "map generate_troubleshooting_steps categories =
       [[''Check physical connections and router LEDs'',
         ''Restart network devices and test connectivity'',
         ''Verify firewall rules and port configurations''],
        [''Review access control lists and permissions'',
         ''Check for unauthorized device connections'',
         ''Verify encryption protocols and certificate validity''],
        [''Monitor disk space and storage quotas'',
         ''Check RAID array status and rebuild if needed'',
         ''Verify storage path configurations and permissions''],
        [''Check resource allocation for virtual machines'',
         ''Verify hypervisor version and patches'',
         ''Monitor VM performance counters for bottlenecks'']]"
    by (simp add: categories_def generate_troubleshooting_steps_known)
qed

theorem knowledge_base_lookups_witness:
  "''storage'' \<in> set categories
   \<and> generate_answer ''storage'' \<noteq> []
   \<and> length (generate_documentation_links ''storage'') = 2
   \<and> length (generate_troubleshooting_steps ''storage'') = 3
   \<and> ''python'' \<notin> set categories
   \<and> generate_answer ''python'' = ''No specific guidance available for this category''
   \<and> generate_documentation_links ''python'' = []
   \<and> generate_troubleshooting_steps ''python'' = []"
proof -
  have k: "''storage'' \<in> set categories" by (simp add: categories_def)
  have u: "''python'' \<notin> set categories" by (simp add: categories_def)
  from knowledge_base_lookups [of "''storage''"] knowledge_base_lookups [of "''python''"]
  show ?thesis using k u by blast
qed

section \<open>The assembler\<close>

lemma process_question_error_is_500:
  "process_question self qd = Inl e \<Longrightarrow> e = HTTPException 500 ''Internal server error''"
  by (auto simp: process_question_def process_question_try_def categorize_question_def
      split: if_splits sum.splits)

text \<open>
  C2. \<open>process_question\<close> does not let the 400 of a blank question or the 503 of an
  unloaded model through: both are raised inside the \<open>try\<close> block, the handler for
  \<open>Exception\<close> catches them, and the caller receives the 500 "Internal server error".
\<close>

theorem process_question_swallows_status:
  "process_question \<lparr>model_service = load_model ModelService_init\<rparr>
       \<lparr>question = ''   '', user_id = None\<rparr>
     = Inl (HTTPException 500 ''Internal server error'')
   \<and> process_question \<lparr>model_service = ModelService_init\<rparr>
       \<lparr>question = ''how do I fix my network'', user_id = None\<rparr>
     = Inl (HTTPException 500 ''Internal server error'')"
  by (simp add: process_question_def process_question_try_def categorize_question_def
      load_model_def ModelService_init_def strip_def lstrip_def rstrip_def isspace_def)

text \<open>
  C3, as stated: the text "how do I fix my network" is not classified as networking.
\<close>

theorem network_question_counterexample:
  "categorize_question (load_model ModelService_init) ''how do I fix my network''
     \<noteq> Inr ''networking''"
  by (simp add: categorize_question_def categories_def
      load_model_def ModelService_init_def strip_def lstrip_def rstrip_def isspace_def)

text \<open>
  C3, amended. The text "how do I fix my network" has 23 characters and \<open>23 mod 4 = 3\<close>,
  so with the model loaded the pipeline classifies it as virtualization and returns the
  virtualization answer, the two links ending in virtualization-tips and vm-configuration
  in that order, and three steps of which the first is
  "Check resource allocation for virtual machines".
\<close>

theorem network_question_result:
  "length ''how do I fix my network'' = 23
   \<and> process_question \<lparr>model_service = load_model ModelService_init\<rparr>
       \<lparr>question = ''how do I fix my network'', user_id = None\<rparr>
     = Inr \<lparr>category = ''virtualization'',
            answer = ''Virtualization problems typically relate to resource allocation or hypervisor settings.'',
            documentation_links =
              [''https://docs.example.com/virtualization-tips'',
               ''https://support.example.com/vm-configuration''],
            troubleshooting_steps =
              [''Check resource allocation for virtual machines'',
               ''Verify hypervisor version and patches'',
               ''Monitor VM performance counters for bottlenecks'']\<rparr>"
  by (simp add: process_question_def process_question_try_def categorize_question_def
      categories_def load_model_def ModelService_init_def strip_def lstrip_def rstrip_def
      isspace_def generate_answer_known generate_documentation_links_known
      generate_troubleshooting_steps_known)

section \<open>Documentation links\<close>

lemma get_documentation_links_known_empty:
  "c \<in> set categories \<Longrightarrow> get_documentation_links DocumentationHelper_init c = []"
  by (auto simp: categories_def get_documentation_links_def get_documentation_links_try_def
      DocumentationHelper_init_def)

text \<open>
  C6, as stated: the links \<open>generate_documentation_links\<close> returns for networking are
  not records of shape \<open>{title, url}\<close>.
\<close>

theorem documentation_links_records_counterexample:
  "\<not> list_all is_title_url_record (map PyStr (generate_documentation_links ''networking''))"
  by (simp add: generate_documentation_links_known is_title_url_record_def)

text \<open>
  C6, amended. For every known category \<open>generate_documentation_links\<close> returns an
  ordered sequence of two bare URL strings, each starting with \<open>https://\<close>, and none of
  them is a record of shape \<open>{title, url}\<close>. Such records are built only by
  \<open>DocumentationHelper.get_documentation_links\<close>: for a category \<open>d\<close> of the helper's
  own dictionary it returns the single record with title "Documentation for \<open>d\<close>" and the
  URL stored for \<open>d\<close>, and for every known category of the classifier it returns the
  empty sequence.
\<close>

theorem documentation_links_shape:
  "(c \<in> set categories \<longrightarrow>
      length (generate_documentation_links c) = 2
      \<and> list_all (prefix ''https://'') (generate_documentation_links c)
      \<and> \<not> list_ex is_title_url_record (map PyStr (generate_documentation_links c))
      \<and> get_documentation_links DocumentationHelper_init c = [])
   \<and> (documentation_links_dict self d = Some u \<longrightarrow>
      get_documentation_links self d = [[(''title'', ''Documentation for '' @ d), (''url'', u)]]
      \<and> list_all is_title_url_record (map PyDict (get_documentation_links self d)))"
proof (intro conjI impI)
  assume k: "c \<in> set categories"
  from known_category_cases [OF k] show "length (generate_documentation_links c) = 2"
    by (auto simp: generate_documentation_links_known)
  from known_category_cases [OF k]
  show "list_all (prefix ''https://'') (generate_documentation_links c)"
    by (auto simp: generate_documentation_links_known)
  show "\<not> list_ex is_title_url_record (map PyStr (generate_documentation_links c))"
    by (simp add: list_ex_iff is_title_url_record_def)
  from k show "get_documentation_links DocumentationHelper_init c = []"
    by (rule get_documentation_links_known_empty)
next
  assume s: "documentation_links_dict self d = Some u"
  then show r: "get_documentation_links self d
      = [[(''title'', ''Documentation for '' @ d), (''url'', u)]]"
    by (simp add: get_documentation_links_def get_documentation_links_try_def)
  show "list_all is_title_url_record (map PyDict (get_documentation_links self d))"
    unfolding r by (simp add: is_title_url_record_def)
qed

theorem documentation_links_shape_witness:
  "''security'' \<in> set categories
   \<and> generate_documentation_links ''security''
       = [''https://docs.example.com/security-best-practices'',
          ''https://support.example.com/secure-configuration'']
   \<and> \<not> list_ex is_title_url_record (map PyStr (generate_documentation_links ''security''))
   \<and> get_documentation_links DocumentationHelper_init ''security'' = []
   \<and> documentation_links_dict DocumentationHelper_init ''api''
       = Some ''https://api-reference.example.com/''
   \<and> get_documentation_links DocumentationHelper_init ''api''
       = [[(''title'', ''Documentation for api''), (''url'', ''https://api-reference.example.com/'')]]"
proof -
  have k: "''security'' \<in> set categories" by (simp add: categories_def)
  have a: "documentation_links_dict DocumentationHelper_init ''api''
       = Some ''https://api-reference.example.com/''"
    by (simp add: DocumentationHelper_init_def)
  have g: "generate_documentation_links ''security''
       = [''https://docs.example.com/security-best-practices'',
          ''https://support.example.com/secure-configuration'']"
    by (rule generate_documentation_links_known)
  note A = documentation_links_shape [of "''security''" DocumentationHelper_init "''api''"
      "''https://api-reference.example.com/''"]
  from A k have 1: "\<not> list_ex is_title_url_record (map PyStr (generate_documentation_links ''security''))"
    and 2: "get_documentation_links DocumentationHelper_init ''security'' = []" by blast+
  from A a have 3: "get_documentation_links DocumentationHelper_init ''api''
       = [[(''title'', ''Documentation for '' @ ''api''), (''url'', ''https://api-reference.example.com/'')]]"
    by blast
  from k g 1 2 a 3 show ?thesis by simp
qed

section \<open>Trimming\<close>

lemma dropWhile_all_iff: "(\<forall>x\<in>set (dropWhile P xs). P x) \<longleftrightarrow> dropWhile P xs = []"
proof
  assume a: "\<forall>x\<in>set (dropWhile P xs). P x"
  show "dropWhile P xs = []"
  proof (rule ccontr)
    assume n: "dropWhile P xs \<noteq> []"
    then have "\<not> P (hd (dropWhile P xs))" by (rule hd_dropWhile)
    moreover from n have "hd (dropWhile P xs) \<in> set (dropWhile P xs)" by simp
    ultimately show False using a by blast
  qed
qed (auto dest: set_dropWhileD)

lemma strip_empty_iff: "strip v = [] \<longleftrightarrow> list_all isspace v"
proof -
  have "strip v = [] \<longleftrightarrow> (\<forall>x\<in>set (dropWhile isspace v). isspace x)"
    by (simp add: strip_def lstrip_def rstrip_def dropWhile_eq_Nil_conv)
  also have "\<dots> \<longleftrightarrow> dropWhile isspace v = []" by (rule dropWhile_all_iff)
  also have "\<dots> \<longleftrightarrow> list_all isspace v" by (simp add: dropWhile_eq_Nil_conv list_all_iff)
  finally show ?thesis .
qed

lemma rstrip_decomp: "s = rstrip s @ rev (takeWhile isspace (rev s))"
proof -
  have "rstrip s @ rev (takeWhile isspace (rev s))
          = rev (takeWhile isspace (rev s) @ dropWhile isspace (rev s))"
    by (simp only: rstrip_def rev_append)
  also have "\<dots> = s" by (simp only: takeWhile_dropWhile_id rev_rev_ident)
  finally show ?thesis by (rule sym)
qed

lemma rstrip_last: "rstrip s \<noteq> [] \<Longrightarrow> \<not> isspace (last (rstrip s))"
  using hd_dropWhile [of isspace "rev s"] by (simp add: rstrip_def last_rev)

lemma rstrip_hd: "rstrip s \<noteq> [] \<Longrightarrow> hd (rstrip s) = hd s"
  using rstrip_decomp [of s] by (metis hd_append2)

lemma lstrip_hd: "lstrip s \<noteq> [] \<Longrightarrow> \<not> isspace (hd (lstrip s))"
  unfolding lstrip_def by (rule hd_dropWhile)

lemma strip_ends:
  assumes "strip s \<noteq> []"
  shows "\<not> isspace (hd (strip s)) \<and> \<not> isspace (last (strip s))"
proof -
  from assms have n: "rstrip (lstrip s) \<noteq> []" by (simp add: strip_def)
  then have l: "lstrip s \<noteq> []" by (auto simp: rstrip_def)
  from rstrip_hd [OF n] lstrip_hd [OF l] have "\<not> isspace (hd (strip s))"
    by (simp add: strip_def)
  moreover from rstrip_last [OF n] have "\<not> isspace (last (strip s))"
    by (simp add: strip_def)
  ultimately show ?thesis by simp
qed

lemma strip_fixed: "r = [] \<or> (\<not> isspace (hd r) \<and> \<not> isspace (last r)) \<Longrightarrow> strip r = r"
proof (cases r)
  case Nil
  then show ?thesis by (simp add: strip_def lstrip_def rstrip_def)
next
  case (Cons a as)
  assume "r = [] \<or> (\<not> isspace (hd r) \<and> \<not> isspace (last r))"
  with Cons have h: "\<not> isspace (hd r)" and l: "\<not> isspace (last r)" by simp_all
  from h Cons have 1: "lstrip r = r" by (simp add: lstrip_def)
  from Cons have "rev r \<noteq> []" by simp
  then obtain b bs where rb: "rev r = b # bs" by (cases "rev r") auto
  with Cons have "last r = b" by (metis last_rev list.sel(1) rev_rev_ident rev_is_Nil_conv hd_rev list.distinct(1))
  with l rb have "dropWhile isspace (rev r) = rev r" by simp
  then have 2: "rstrip r = r" by (simp add: rstrip_def)
  from 1 2 show ?thesis by (simp add: strip_def)
qed

lemma strip_idem: "strip (strip s) = strip s"
  using strip_ends [of s] by (intro strip_fixed) blast

lemma set_strip: "set (strip s) \<subseteq> set s"
proof -
  have "set (rstrip t) \<subseteq> set t" for t
    using set_dropWhileD [of _ isspace "rev t"] by (auto simp: rstrip_def)
  moreover have "set (lstrip s) \<subseteq> set s"
    using set_dropWhileD [of _ isspace s] by (auto simp: lstrip_def)
  ultimately show ?thesis unfolding strip_def by blast
qed

lemma subseq_strip: "subseq (strip s) s"
proof -
  have "suffix (lstrip s) s" by (simp add: lstrip_def suffix_dropWhile)
  then have a: "subseq (lstrip s) s" by (rule suffix_imp_subseq)
  have "prefix (rstrip t) t" for t
    using rstrip_decomp [of t] by (metis prefixI)
  then have "subseq (rstrip (lstrip s)) (lstrip s)" by (rule prefix_imp_subseq)
  from this a show ?thesis unfolding strip_def by (rule subseq_order.trans)
qed

section \<open>The validator\<close>

text \<open>
  What the function as written does when \<open>self\<close> is an initialised instance: the three
  outcomes its docstring describes.
\<close>

lemma validate_question_body_empty:
  "strip v = [] \<Longrightarrow>
     snd (validate_question_body self v) = Inl (HTTPException 400 ''Question cannot be empty'')"
  by (simp add: validate_question_body_def validate_question_try_def)

lemma validate_question_body_prohibited:
  assumes "strip v \<noteq> []" and "w \<in> set (prohibited_words obj)" and "sublist w (lower v)"
  shows "snd (validate_question_body (Instance obj) v)
           = Inl (HTTPException 400 ''Question contains prohibited content'')"
proof -
  from assms(2,3) have "any_word_in (prohibited_words obj) (lower v)"
    unfolding any_word_in_def list_ex_iff by blast
  with assms(1) show ?thesis
    by (simp add: validate_question_body_def validate_question_try_def
        getattr_prohibited_words_def)
qed

lemma validate_question_body_accepts:
  assumes "strip v \<noteq> []" and "\<not> any_word_in (prohibited_words obj) (lower v)"
  shows "validate_question_body (Instance obj) v
           = (if any_word_in (technical_keywords obj) (lower v) then []
              else [(WARNING, ''Question may not be technical enough: '' @ v)], Inr v)"
  using assms
  by (simp add: validate_question_body_def validate_question_try_def
      getattr_prohibited_words_def getattr_technical_keywords_def)

text \<open>
  What the decorated method does. Under pydantic 2 every use ends in the error of the
  class statement. Under pydantic 1 the body runs on the class object: a blank text is
  rejected before \<open>self\<close> is read, and every other text fails on the first attribute.
\<close>

lemma validate_question_pydantic2:
  "validate_question Pydantic2 obj v = ([], Inl (PydanticUserError ''validator-instance-method''))"
  by (simp add: validate_question_def)

lemma validate_question_pydantic1_blank:
  "strip v = [] \<Longrightarrow>
     snd (validate_question Pydantic1 obj v)
       = Inl (HTTPException 400 ''Question cannot be empty'')"
  by (simp add: validate_question_def validate_question_body_empty)

lemma validate_question_pydantic1_nonblank:
  "strip v \<noteq> [] \<Longrightarrow>
     snd (validate_question Pydantic1 obj v)
       = Inl (HTTPException 400 (exc_str (no_attribute ''prohibited_words'')))"
  by (simp add: validate_question_def validate_question_body_def validate_question_try_def
      getattr_prohibited_words_def)

lemma no_attribute_prohibited_words:
  "exc_str (no_attribute ''prohibited_words'')
     = ''type object 'QuestionValidator' has no attribute 'prohibited_words'' @ [CHR 0x27]"
  by (simp add: no_attribute_def)


text \<open>
  C8. The text "Some MalWare here", whose lowercase form contains malware. The decorated
  method never answers with the 400 "Question contains prohibited content": under
  pydantic 1 the words cannot be read from the class object and the 400 carries the text
  of the \<open>AttributeError\<close>, under pydantic 2 the outcome is the \<open>PydanticUserError\<close> of the
  class statement.
\<close>

theorem validate_question_prohibited_outcome:
  "sublist ''malware'' (lower ''Some MalWare here'')
   \<and> validate_question Pydantic1 QuestionValidator_init ''Some MalWare here''
     = ([(ERROR, ''Validation error: type object 'QuestionValidator' has no attribute 'prohibited_words'' @ [CHR 0x27])],
        Inl (HTTPException 400
          (''type object 'QuestionValidator' has no attribute 'prohibited_words'' @ [CHR 0x27])))
   \<and> validate_question Pydantic2 QuestionValidator_init ''Some MalWare here''
     = ([], Inl (PydanticUserError ''validator-instance-method''))"
proof -
  have l: "sublist ''malware'' (lower ''Some MalWare here'')" by code_simp
  have s: "strip ''Some MalWare here'' \<noteq> []"
    by (simp add: strip_def lstrip_def rstrip_def isspace_def)
  from s have 1: "validate_question Pydantic1 QuestionValidator_init ''Some MalWare here''
     = ([(ERROR, ''Validation error: type object 'QuestionValidator' has no attribute 'prohibited_words'' @ [CHR 0x27])],
        Inl (HTTPException 400
          (''type object 'QuestionValidator' has no attribute 'prohibited_words'' @ [CHR 0x27])))"
    by (simp add: validate_question_def validate_question_body_def validate_question_try_def
        getattr_prohibited_words_def no_attribute_def)
  have 2: "validate_question Pydantic2 QuestionValidator_init ''Some MalWare here''
     = ([], Inl (PydanticUserError ''validator-instance-method''))"
    by (rule validate_question_pydantic2)
  from l 1 2 show ?thesis by blast
qed

text \<open>
  C9. The text "hello", which is not blank and holds no prohibited word. The decorated
  method never returns it: under pydantic 1 the call fails with the 400 of the
  \<open>AttributeError\<close>, under pydantic 2 the outcome is the \<open>PydanticUserError\<close> of the class
  statement.
\<close>

theorem validate_question_accepts_outcome:
  "\<not> any_word_in (prohibited_words QuestionValidator_init) (lower ''hello'')
   \<and> snd (validate_question Pydantic1 QuestionValidator_init ''hello'')
     = Inl (HTTPException 400
         (''type object 'QuestionValidator' has no attribute 'prohibited_words'' @ [CHR 0x27]))
   \<and> snd (validate_question Pydantic2 QuestionValidator_init ''hello'')
     = Inl (PydanticUserError ''validator-instance-method'')"
proof -
  have p: "\<not> any_word_in (prohibited_words QuestionValidator_init) (lower ''hello'')"
    by code_simp
  have s: "strip ''hello'' \<noteq> []"
    by (simp add: strip_def lstrip_def rstrip_def isspace_def)
  from s have 1: "snd (validate_question Pydantic1 QuestionValidator_init ''hello'')
     = Inl (HTTPException 400
         (''type object 'QuestionValidator' has no attribute 'prohibited_words'' @ [CHR 0x27]))"
    by (simp add: validate_question_def validate_question_body_def validate_question_try_def
        getattr_prohibited_words_def no_attribute_def)
  have 2: "snd (validate_question Pydantic2 QuestionValidator_init ''hello'')
     = Inl (PydanticUserError ''validator-instance-method'')"
    by (simp add: validate_question_pydantic2)
  from p 1 2 show ?thesis by blast
qed

section \<open>The sanitizer\<close>

lemma subseq_remove_tags: "subseq (remove_tags s) s"
proof (induction s rule: remove_tags.induct)
  case 1
  then show ?case by simp
next
  case (2 c cs)
  let ?d = "dropWhile (\<lambda>x. x \<noteq> CHR ''>'') cs"
  show ?case
  proof (cases "c = CHR ''<'' \<and> takeWhile (\<lambda>x. x \<noteq> CHR ''>'') cs \<noteq> [] \<and> ?d \<noteq> []")
    case True
    with 2 have ih: "subseq (remove_tags (tl ?d)) (tl ?d)" by simp
    have "suffix (tl ?d) ?d" by (simp add: suffix_tl)
    moreover have "suffix ?d cs" by (rule suffix_dropWhile)
    ultimately have "suffix (tl ?d) (c # cs)"
      by (meson suffix_order.trans suffix_ConsI)
    then have "subseq (tl ?d) (c # cs)" by (rule suffix_imp_subseq)
    with ih have "subseq (remove_tags (tl ?d)) (c # cs)" by (rule subseq_order.trans)
    with True show ?thesis by simp
  next
    case False
    with 2 have "subseq (remove_tags cs) cs" by simp
    with False show ?thesis by auto
  qed
qed

lemma remove_tags_tag:
  assumes "CHR ''<'' \<notin> set p" and "body \<noteq> []" and "CHR ''>'' \<notin> set body"
  shows "remove_tags (p @ ''<'' @ body @ ''>'' @ q) = p @ remove_tags q"
  using assms(1)
proof (induction p)
  case Nil
  from assms(3) have t: "takeWhile (\<lambda>x. x \<noteq> CHR ''>'') (body @ CHR ''>'' # q) = body"
    by (subst takeWhile_append2) auto
  from assms(3) have d: "dropWhile (\<lambda>x. x \<noteq> CHR ''>'') (body @ CHR ''>'' # q) = CHR ''>'' # q"
    by (subst dropWhile_append2) auto
  from t d assms(2) show ?case by simp
next
  case (Cons a p)
  then show ?case by auto
qed


lemma sanitize_input_str:
  "sanitize_input (PyStr t) = strip (remove_special (remove_tags t))"
  by (simp add: sanitize_input_def sanitize_input_try_def)

lemma sanitize_input_cases:
  "sanitize_input v = [] \<or> (\<exists>t. v = PyStr t)"
  by (cases v) (simp_all add: sanitize_input_def sanitize_input_try_def)

lemma strip_Nil: "strip [] = []"
  by (simp add: strip_def lstrip_def rstrip_def)

text \<open>
  C10. \<open>sanitize_input\<close> returns a string for every argument. For \<open>None\<close> and for an
  argument that is not a string (where the body raises) the result is empty. For a string
  it is the text with the tags removed, then the characters outside the whitelist removed,
  then trimmed. A tag \<open><body>\<close> with a non-empty body behind a prefix without \<open><\<close> is
  removed whole. The result is a subsequence of the input, all its characters are in the
  whitelist, it holds neither \<open><\<close> nor \<open>>\<close>, and trimming it again changes nothing.
\<close>

theorem sanitize_input_total:
  "sanitize_input PyNone = []
   \<and> sanitize_input (PyInt i) = []
   \<and> sanitize_input (PyDict d) = []
   \<and> (sanitize_input_try v = Inl e \<longrightarrow> sanitize_input v = [])
   \<and> sanitize_input (PyStr t) = strip (filter allowed_char (remove_tags t))
   \<and> (CHR ''<'' \<notin> set p \<and> body \<noteq> [] \<and> CHR ''>'' \<notin> set body \<longrightarrow>
        remove_tags (p @ ''<'' @ body @ ''>'' @ q) = p @ remove_tags q)
   \<and> subseq (sanitize_input (PyStr t)) t
   \<and> list_all allowed_char (sanitize_input v)
   \<and> CHR ''<'' \<notin> set (sanitize_input v) \<and> CHR ''>'' \<notin> set (sanitize_input v)
   \<and> strip (sanitize_input v) = sanitize_input v"
proof -
  have a: "sanitize_input PyNone = []" "sanitize_input (PyInt i) = []"
    "sanitize_input (PyDict d) = []"
    by (simp_all add: sanitize_input_def sanitize_input_try_def)
  have b: "sanitize_input_try v = Inl e \<longrightarrow> sanitize_input v = []"
    by (simp add: sanitize_input_def)
  have c: "sanitize_input (PyStr t) = strip (filter allowed_char (remove_tags t))"
    by (simp add: sanitize_input_str remove_special_def)
  have d: "CHR ''<'' \<notin> set p \<and> body \<noteq> [] \<and> CHR ''>'' \<notin> set body \<longrightarrow>
        remove_tags (p @ ''<'' @ body @ ''>'' @ q) = p @ remove_tags q"
    using remove_tags_tag by blast
  have e: "subseq (sanitize_input (PyStr t)) t"
  proof -
    have "subseq (strip (filter allowed_char (remove_tags t))) (filter allowed_char (remove_tags t))"
      by (rule subseq_strip)
    moreover have "subseq (filter allowed_char (remove_tags t)) (remove_tags t)"
      by simp
    moreover have "subseq (remove_tags t) t" by (rule subseq_remove_tags)
    ultimately show ?thesis unfolding c by (meson subseq_order.trans)
  qed
  have f: "list_all allowed_char (sanitize_input v)"
  proof -
    from sanitize_input_cases [of v] show ?thesis
    proof
      assume "sanitize_input v = []" then show ?thesis by simp
    next
      assume "\<exists>t. v = PyStr t"
      then obtain u where v: "v = PyStr u" ..
      have "set (sanitize_input (PyStr u)) \<subseteq> set (filter allowed_char (remove_tags u))"
        unfolding sanitize_input_str remove_special_def by (rule set_strip)
      then show ?thesis unfolding v list_all_iff by auto
    qed
  qed
  have n: "\<not> allowed_char CHR ''<''" "\<not> allowed_char CHR ''>''"
    by (simp_all add: allowed_char_def isword_def isspace_def)
  from f n have g: "CHR ''<'' \<notin> set (sanitize_input v)" "CHR ''>'' \<notin> set (sanitize_input v)"
    unfolding list_all_iff by blast+
  have h: "strip (sanitize_input v) = sanitize_input v"
  proof -
    from sanitize_input_cases [of v] show ?thesis
    proof
      assume "sanitize_input v = []" then show ?thesis by (simp add: strip_Nil)
    next
      assume "\<exists>t. v = PyStr t"
      then obtain u where v: "v = PyStr u" ..
      show ?thesis unfolding v sanitize_input_str by (rule strip_idem)
    qed
  qed
  from a b c d e f g h show ?thesis by blast
qed

theorem sanitize_input_total_witness:
  "sanitize_input_try (PyInt 7) = Inl (ValueError ''Input must be a string'')
   \<and> sanitize_input (PyInt 7) = []
   \<and> CHR ''<'' \<notin> set ''Hi '' \<and> ''b'' \<noteq> [] \<and> CHR ''>'' \<notin> set ''b''
   \<and> remove_tags (''Hi '' @ ''<'' @ ''b'' @ ''>'' @ ''you'') = ''Hi '' @ remove_tags ''you''
   \<and> sanitize_input (PyStr ''  <b>Hi</b> there @#$ ok?  '') = ''Hi there  ok?''
   \<and> list_all allowed_char (sanitize_input (PyStr ''  <b>Hi</b> there @#$ ok?  ''))"
proof -
  have t: "sanitize_input_try (PyInt 7) = Inl (ValueError ''Input must be a string'')"
    by (simp add: sanitize_input_try_def)
  have p: "CHR ''<'' \<notin> set ''Hi '' \<and> ''b'' \<noteq> [] \<and> CHR ''>'' \<notin> set ''b''"
    by simp
  have v: "strip (filter allowed_char (remove_tags ''  <b>Hi</b> there @#$ ok?  ''))
             = ''Hi there  ok?''"
    by code_simp
  note A = sanitize_input_total [of 7 "[]" "PyInt 7" "ValueError ''Input must be a string''"
         "''  <b>Hi</b> there @#$ ok?  ''" "''Hi ''" "''b''" "''you''"]
  note B = sanitize_input_total [of 7 "[]" "PyStr ''  <b>Hi</b> there @#$ ok?  ''"
         "ValueError ''Input must be a string''"
         "''  <b>Hi</b> there @#$ ok?  ''" "''Hi ''" "''b''" "''you''"]
  from A t have 1: "sanitize_input (PyInt 7) = []" by blast
  from A p have 2: "remove_tags (''Hi '' @ ''<'' @ ''b'' @ ''>'' @ ''you'')
      = ''Hi '' @ remove_tags ''you''" by blast
  from B have "sanitize_input (PyStr ''  <b>Hi</b> there @#$ ok?  '')
      = strip (filter allowed_char (remove_tags ''  <b>Hi</b> there @#$ ok?  ''))" by blast
  then have 3: "sanitize_input (PyStr ''  <b>Hi</b> there @#$ ok?  '') = ''Hi there  ok?''"
    using v by (rule trans)
  from B have 4: "list_all allowed_char (sanitize_input (PyStr ''  <b>Hi</b> there @#$ ok?  ''))"
    by blast
  from t 1 p 2 3 4 show ?thesis by blast
qed

end
